theory Spec2Isabelle
  imports Complex_Main
begin

section \<open>Python values\<close>

text \<open>
  The request arguments handled by \<^verbatim>\<open>filter.py\<close> and \<^verbatim>\<open>pagination.py\<close> are
  Python dictionaries from strings to arbitrary values. The values that matter for the
  two modules are \<^verbatim>\<open>None\<close>, booleans, integers, strings and lists of these.
  A string is a list of characters, each standing for the code point of the same number.
\<close>

datatype pyval =
    PNone
  | PBool bool
  | PInt int
  | PStr string
  | PList "pyval list"

text \<open>Truth value testing, as used by \<^verbatim>\<open>not x\<close> and \<^verbatim>\<open>x or y\<close>.\<close>

fun truthy :: "pyval \<Rightarrow> bool" where
  "truthy PNone = False"
| "truthy (PBool b) = b"
| "truthy (PInt i) = (i \<noteq> 0)"
| "truthy (PStr s) = (s \<noteq> [])"
| "truthy (PList xs) = (xs \<noteq> [])"

definition py_or :: "pyval \<Rightarrow> pyval \<Rightarrow> pyval" where
  \<comment> \<open>\<^verbatim>\<open>a or b\<close>: the first operand when it is truthy, the second otherwise.\<close>
  "py_or a b = (if truthy a then a else b)"

subsection \<open>\<^verbatim>\<open>str\<close> and \<^verbatim>\<open>repr\<close>, as used by f-strings\<close>

fun dec_nat :: "nat \<Rightarrow> string" where
  "dec_nat n =
     (if n < 10 then [''0123456789'' ! n]
      else dec_nat (n div 10) @ [''0123456789'' ! (n mod 10)])"

declare dec_nat.simps [simp del]

definition dec_int :: "int \<Rightarrow> string" where
  "dec_int i = (if i < 0 then CHR ''-'' # dec_nat (nat (- i)) else dec_nat (nat i))"

definition hex_escape :: "char \<Rightarrow> string" where
  \<comment> \<open>\<^verbatim>\<open>\xhh\<close> with two lower-case hexadecimal digits.\<close>
  "hex_escape c =
     (let n = (of_char c :: nat)
      in [CHR 0x5C, CHR ''x'', ''0123456789abcdef'' ! (n div 16), ''0123456789abcdef'' ! (n mod 16)])"

definition printable :: "char \<Rightarrow> bool" where
  \<comment> \<open>\<^verbatim>\<open>str.isprintable\<close> on the code points 0 to 255.\<close>
  "printable c =
     (let n = (of_char c :: nat)
      in (32 \<le> n \<and> n < 127) \<or> (161 \<le> n \<and> n \<noteq> 173))"

definition repr_char :: "char \<Rightarrow> char \<Rightarrow> string" where
  "repr_char q c =
     (if c = q \<or> c = CHR 0x5C then [CHR 0x5C, c]
      else if c = CHR 0x09 then [CHR 0x5C, CHR ''t'']
      else if c = CHR 0x0A then [CHR 0x5C, CHR ''n'']
      else if c = CHR 0x0D then [CHR 0x5C, CHR ''r'']
      else if printable c then [c]
      else hex_escape c)"

definition repr_str :: "string \<Rightarrow> string" where
  \<comment> \<open>Single quotes, unless the string has a single quote and no double quote.\<close>
  "repr_str s =
     (let q = (if CHR 0x27 \<in> set s \<and> CHR 0x22 \<notin> set s then CHR 0x22 else CHR 0x27)
      in q # concat (map (repr_char q) s) @ [q])"

fun join_comma :: "string list \<Rightarrow> string" where
  "join_comma [] = []"
| "join_comma [x] = x"
| "join_comma (x # y # ys) = x @ '', '' @ join_comma (y # ys)"

fun py_repr :: "pyval \<Rightarrow> string" where
  "py_repr PNone = ''None''"
| "py_repr (PBool b) = (if b then ''True'' else ''False'')"
| "py_repr (PInt i) = dec_int i"
| "py_repr (PStr s) = repr_str s"
| "py_repr (PList xs) = ''['' @ join_comma (map py_repr xs) @ '']''"

definition py_str :: "pyval \<Rightarrow> string" where
  \<comment> \<open>\<^verbatim>\<open>str(v)\<close>, which is what \<^verbatim>\<open>f'{v}'\<close> interpolates: a string is itself,
      everything else prints as its \<^verbatim>\<open>repr\<close>.\<close>
  "py_str v = (case v of PStr s \<Rightarrow> s | _ \<Rightarrow> py_repr v)"

subsection \<open>Exceptions and dictionaries\<close>

datatype error =
    KeyError string
  | ValueError string
  | TypeError
  | ZeroDivisionError

type_synonym dict = "string \<rightharpoonup> pyval"

definition dict_get :: "dict \<Rightarrow> string \<Rightarrow> pyval" where
  \<comment> \<open>\<^verbatim>\<open>d.get(k)\<close>: \<^verbatim>\<open>None\<close> for a missing key, never an error.\<close>
  "dict_get d k = (case d k of None \<Rightarrow> PNone | Some v \<Rightarrow> v)"

definition dict_getitem :: "dict \<Rightarrow> string \<Rightarrow> error + pyval" where
  \<comment> \<open>\<^verbatim>\<open>d[k]\<close>: raises \<^verbatim>\<open>KeyError\<close> for a missing key.\<close>
  "dict_getitem d k = (case d k of None \<Rightarrow> Inl (KeyError k) | Some v \<Rightarrow> Inr v)"

definition dict_pop :: "dict \<Rightarrow> string \<Rightarrow> (error + pyval) \<times> dict" where
  \<comment> \<open>\<^verbatim>\<open>d.pop(k)\<close> with no default: removes the key and returns its value, or raises
      \<^verbatim>\<open>KeyError\<close> and leaves the dictionary as it was. The second component is the
      dictionary after the call.\<close>
  "dict_pop d k = (case d k of None \<Rightarrow> (Inl (KeyError k), d) | Some v \<Rightarrow> (Inr v, d(k := None)))"

section \<open>The query engine's expressions and queries\<close>

text \<open>
  SQLAlchemy is a collaborator of the two modules, not part of them. Its column
  expressions are modelled as the syntax trees its operators build, and a query as the
  record of the clauses that the generative methods \<^verbatim>\<open>join\<close>, \<^verbatim>\<open>filter\<close>,
  \<^verbatim>\<open>distinct\<close>, \<^verbatim>\<open>limit\<close> and \<^verbatim>\<open>offset\<close> add to it. None of these methods
  runs the query; only \<^verbatim>\<open>count\<close> and \<^verbatim>\<open>all\<close> do. Whether the engine accepts an
  operator for a given attribute and value (\<^verbatim>\<open>in_\<close> of a value that is no collection,
  say) is the engine's matter: what it raises passes through the two modules unchanged
  and is not part of this model.
\<close>

datatype attr = Attr string string
  \<comment> \<open>A mapped attribute: the model's name and the attribute's name.\<close>

datatype expr =
    Eq attr pyval
  | Ne attr pyval
  | Lt attr pyval
  | Le attr pyval
  | Gt attr pyval
  | Ge attr pyval
  | Like attr string
  | ILike attr string
  | StartsWith attr pyval
  | EndsWith attr pyval
  | In attr pyval
  | NotIn attr pyval
  | Contains attr pyval
  | Is attr pyval
  | IsNot attr pyval
  | Or "expr list"
  | AnyRelated attr expr
  | HasRelated attr expr
  | Not expr

record query =
  entity :: string
  joins :: "string list"
  criteria :: "expr list"
  distinct_on :: "attr list"
  limit_clause :: "int option"
  offset_clause :: "int option"

definition model_query :: "string \<Rightarrow> query" where
  \<comment> \<open>\<^verbatim>\<open>model.query\<close>\<close>
  "model_query model =
     \<lparr>entity = model, joins = [], criteria = [], distinct_on = [],
      limit_clause = None, offset_clause = None\<rparr>"

definition join_q :: "query \<Rightarrow> string \<Rightarrow> query" where
  "join_q q m = q\<lparr>joins := joins q @ [m]\<rparr>"

definition filter_q :: "query \<Rightarrow> expr list \<Rightarrow> query" where
  \<comment> \<open>\<^verbatim>\<open>query.filter(*criteria)\<close>: the criteria are joined to the existing ones by AND.\<close>
  "filter_q q es = q\<lparr>criteria := criteria q @ es\<rparr>"

definition distinct_q :: "query \<Rightarrow> attr \<Rightarrow> query" where
  "distinct_q q a = q\<lparr>distinct_on := distinct_on q @ [a]\<rparr>"

definition limit_q :: "query \<Rightarrow> int \<Rightarrow> query" where
  "limit_q q n = q\<lparr>limit_clause := Some n\<rparr>"

definition offset_q :: "query \<Rightarrow> int \<Rightarrow> query" where
  "offset_q q n = q\<lparr>offset_clause := Some n\<rparr>"



section \<open>\<^verbatim>\<open>filter.py\<close>\<close>


definition get_filter_arg :: "attr \<Rightarrow> pyval \<Rightarrow> string \<Rightarrow> error + expr" where
  "get_filter_arg field val filter_type =
     (if filter_type = ''eq'' then Inr (Eq field val)
      else if filter_type = ''ne'' then Inr (Ne field val)
      else if filter_type = ''lt'' then Inr (Lt field val)
      else if filter_type = ''le'' then Inr (Le field val)
      else if filter_type = ''gt'' then Inr (Gt field val)
      else if filter_type = ''ge'' then Inr (Ge field val)
      else if filter_type = ''like'' then Inr (Like field (''%'' @ py_str val @ ''%''))
      else if filter_type = ''ilike'' then Inr (ILike field (''%'' @ py_str val @ ''%''))
      else if filter_type = ''starts'' then Inr (StartsWith field val)
      else if filter_type = ''ends'' then Inr (EndsWith field val)
      else if filter_type = ''istarts'' then Inr (ILike field (py_str val @ ''%''))
      else if filter_type = ''iends'' then Inr (ILike field (''%'' @ py_str val))
      else if filter_type = ''in'' then Inr (In field val)
      else if filter_type = ''not_in'' then Inr (NotIn field val)
      else if filter_type = ''contains'' then Inr (Contains field val)
      else if filter_type = ''is_null'' then Inr (Is field PNone)
      else if filter_type = ''is_not_null'' then Inr (IsNot field PNone)
      else Inl (ValueError (''Invalid filter type: '' @ filter_type)))"

text \<open>
  \<^verbatim>\<open>FieldConfigValueType\<close>: \<^verbatim>\<open>field\<close> is required, \<^verbatim>\<open>look_up\<close> and
  \<^verbatim>\<open>wrapper\<close> may be absent. A configuration maps each key to one such dictionary or
  to a list of them (\<^verbatim>\<open>FilterConfigType\<close>); it is kept as an association list, since
  the loop goes through the items in insertion order.
\<close>

record field_config =
  field :: attr
  look_up :: "string option"
  wrapper :: "(expr \<Rightarrow> expr) option"

datatype config_value =
    Single field_config
  | Alternatives "field_config list"

definition look_up_or_eq :: "field_config \<Rightarrow> string" where
  \<comment> \<open>\<^verbatim>\<open>value.get('look_up', 'eq')\<close>\<close>
  "look_up_or_eq c = (case look_up c of None \<Rightarrow> ''eq'' | Some t \<Rightarrow> t)"

definition apply_wrapper :: "field_config \<Rightarrow> expr \<Rightarrow> expr" where
  \<comment> \<open>\<^verbatim>\<open>wrapper(filter_arg) if wrapper else filter_arg\<close>\<close>
  "apply_wrapper c e = (case wrapper c of None \<Rightarrow> e | Some w \<Rightarrow> w e)"

definition build_arg :: "dict \<Rightarrow> string \<Rightarrow> field_config \<Rightarrow> error + expr" where
  \<comment> \<open>The two statements after the \<^verbatim>\<open>continue\<close> test, the same in both branches:
      \<^verbatim>\<open>get_filter_arg(field, args[key], filter_type)\<close>, then the wrapper.\<close>
  "build_arg args key c =
     (case dict_getitem args key of
        Inl e \<Rightarrow> Inl e
      | Inr v \<Rightarrow>
          (case get_filter_arg (field c) v (look_up_or_eq c) of
             Inl e \<Rightarrow> Inl e
           | Inr filter_arg \<Rightarrow> Inr (apply_wrapper c filter_arg)))"

fun or_loop :: "dict \<Rightarrow> string \<Rightarrow> field_config list \<Rightarrow> expr list \<Rightarrow> error + expr list" where
  \<comment> \<open>The inner loop over a list-valued entry; the last argument is
      \<^verbatim>\<open>or_filter_arguments\<close>.\<close>
  "or_loop args key [] or_filter_arguments = Inr or_filter_arguments"
| "or_loop args key (c # cs) or_filter_arguments =
     (if \<not> truthy (dict_get args key) then or_loop args key cs or_filter_arguments
      else
        (case build_arg args key c of
           Inl e \<Rightarrow> Inl e
         | Inr filter_arg \<Rightarrow> or_loop args key cs (or_filter_arguments @ [filter_arg])))"

fun config_loop :: "dict \<Rightarrow> (string \<times> config_value) list \<Rightarrow> expr list \<Rightarrow> error + expr list" where
  \<comment> \<open>The loop over \<^verbatim>\<open>field_config.items()\<close>; the last argument is
      \<^verbatim>\<open>filter_arguments\<close>.\<close>
  "config_loop args [] filter_arguments = Inr filter_arguments"
| "config_loop args ((key, Single c) # rest) filter_arguments =
     (if \<not> truthy (dict_get args key) then config_loop args rest filter_arguments
      else
        (case build_arg args key c of
           Inl e \<Rightarrow> Inl e
         | Inr filter_args \<Rightarrow> config_loop args rest (filter_arguments @ [filter_args])))"
| "config_loop args ((key, Alternatives cs) # rest) filter_arguments =
     (case or_loop args key cs [] of
        Inl e \<Rightarrow> Inl e
      | Inr or_filter_arguments \<Rightarrow>
          config_loop args rest (filter_arguments @ [Or or_filter_arguments]))"

definition get_filtered_query ::
  "string \<Rightarrow> dict \<Rightarrow> (string \<times> config_value) list \<Rightarrow> string list \<Rightarrow> bool \<Rightarrow> error + query" where
  "get_filtered_query model args field_config join_models ignore_deleted =
     (case config_loop args field_config [] of
        Inl e \<Rightarrow> Inl e
      | Inr filter_arguments \<Rightarrow>
          (let query = foldl join_q (model_query model) join_models;
               filter_arguments =
                 (if ignore_deleted
                  then filter_arguments @ [Eq (Attr model ''deleted'') (PBool False)]
                  else filter_arguments)
           in Inr (distinct_q (filter_q query filter_arguments) (Attr model ''id''))))"

text \<open>
  For stating what the loop leaves when no configured key has a value: one \<^verbatim>\<open>or_\<close>
  of no expression for each list-valued key, in the order of the configuration.
\<close>

fun empty_groups :: "(string \<times> config_value) list \<Rightarrow> expr list" where
  "empty_groups [] = []"
| "empty_groups ((key, Single c) # rest) = empty_groups rest"
| "empty_groups ((key, Alternatives cs) # rest) = Or [] # empty_groups rest"

section \<open>\<^verbatim>\<open>pagination.py\<close>\<close>

text \<open>
  Running a query is the database's work. An engine gives, for a query, the number
  \<^verbatim>\<open>query.count()\<close> returns and the rows \<^verbatim>\<open>query.all()\<close> returns; every call of
  one of the two is recorded in a trace, so that what a function executes, and in which
  order, can be stated.
\<close>

record 'row engine =
  count_rows :: "query \<Rightarrow> int"
  all_rows :: "query \<Rightarrow> 'row list"

datatype exec = ExecCount query | ExecAll query

text \<open>\<^verbatim>\<open>PaginatedDataType\<close>, the structure handed to the schema's \<^verbatim>\<open>dump\<close>.\<close>

record 'item page =
  items :: "'item list"
  total_count :: int
  total_page :: int
  current_page :: int
  has_next :: bool
  has_prev :: bool

definition get_paginated_queryset :: "query \<Rightarrow> int \<Rightarrow> int \<Rightarrow> query" where
  "get_paginated_queryset queryset page size' =
     offset_q (limit_q queryset size') ((page - 1) * size')"

text \<open>
  \<^verbatim>\<open>total_count / size\<close> is Python's true division and \<^verbatim>\<open>ceil\<close> rounds its result
  up to an integer. The quotient is taken exactly here; Python computes it in double
  precision, which gives the same ceiling as long as the count and the size are below
  \<open>2\<^sup>5\<^sup>3\<close>.
\<close>

definition truediv :: "int \<Rightarrow> int \<Rightarrow> error + real" where
  "truediv a b = (if b = 0 then Inl ZeroDivisionError else Inr (real_of_int a / real_of_int b))"

definition ceil :: "real \<Rightarrow> int" where
  "ceil x = \<lceil>x\<rceil>"

definition as_int :: "pyval \<Rightarrow> error + int" where
  \<comment> \<open>\<^verbatim>\<open>page\<close> and \<^verbatim>\<open>size\<close> are declared \<^verbatim>\<open>int\<close>, and the arithmetic on them is
      integer arithmetic (a \<^verbatim>\<open>bool\<close> counts as 0 or 1). With a string or a list in
      their place the call raises before it returns; which statement raises first depends
      on the engine, so such a call is reported as \<^verbatim>\<open>TypeError\<close> and its
      executions are not traced.\<close>
  "as_int v =
     (case v of
        PInt i \<Rightarrow> Inr i
      | PBool b \<Rightarrow> Inr (if b then 1 else 0)
      | _ \<Rightarrow> Inl TypeError)"

text \<open>
  \<^verbatim>\<open>get_paginated_data(query, page_args, SchemaClass)\<close>. The schema is the function
  that serializes one row. The result comes with the \<^verbatim>\<open>page_args\<close> dictionary as it is
  after the call and with the trace extended by the executions of the call.
\<close>

definition get_paginated_data ::
  "'row engine \<Rightarrow> query \<Rightarrow> dict \<Rightarrow> ('row \<Rightarrow> 'item) \<Rightarrow> exec list
     \<Rightarrow> (error + 'item page) \<times> dict \<times> exec list" where
  "get_paginated_data eng query page_args SchemaClass trace =
     (case as_int (py_or (dict_get page_args ''page'') (PInt 1)) of
        Inl e \<Rightarrow> (Inl e, page_args, trace)
      | Inr page \<Rightarrow>
     (case as_int (py_or (dict_get page_args ''size'') (PInt 10)) of
        Inl e \<Rightarrow> (Inl e, page_args, trace)
      | Inr size' \<Rightarrow>
          (let paginated_queryset = get_paginated_queryset query page size';
               total_count = count_rows eng query;
               trace = trace @ [ExecCount query]
           in case truediv total_count size' of
                Inl e \<Rightarrow> (Inl e, page_args, trace)
              | Inr ratio \<Rightarrow>
                  (let total_page = ceil ratio;
                       has_next = (page < total_page);
                       has_prev = (page > 1);
                       rows = all_rows eng paginated_queryset;
                       trace = trace @ [ExecAll paginated_queryset]
                   in (Inr \<lparr>items = map SchemaClass rows,
                             total_count = total_count,
                             total_page = total_page,
                             current_page = page,
                             has_next = has_next,
                             has_prev = has_prev\<rparr>,
                       page_args, trace)))))"

text \<open>
  \<^verbatim>\<open>get_page_args(args)\<close>: the result, and the \<^verbatim>\<open>args\<close> dictionary as it is after
  the call.
\<close>

definition get_page_args :: "dict \<Rightarrow> (error + dict) \<times> dict" where
  "get_page_args args =
     (case dict_pop args ''page'' of
        (Inl e, args) \<Rightarrow> (Inl e, args)
      | (Inr popped_page, args) \<Rightarrow>
          (let page = py_or popped_page (PInt 1)
           in case dict_pop args ''size'' of
                (Inl e, args) \<Rightarrow> (Inl e, args)
              | (Inr popped_size, args) \<Rightarrow>
                  (let size' = py_or popped_size (PInt 10)
                   in (Inr [''page'' \<mapsto> page, ''size'' \<mapsto> size'], args))))"

text \<open>
  A database of one table for the examples: \<^verbatim>\<open>count\<close> is the number of rows,
  \<^verbatim>\<open>all\<close> the window that the query's limit and offset cut out of them.
\<close>

definition window :: "query \<Rightarrow> 'row list \<Rightarrow> 'row list" where
  "window q rows =
     (let dropped = (case offset_clause q of None \<Rightarrow> rows | Some k \<Rightarrow> drop (nat k) rows)
      in case limit_clause q of None \<Rightarrow> dropped | Some n \<Rightarrow> take (nat n) dropped)"

definition table_engine :: "'row list \<Rightarrow> 'row engine" where
  "table_engine rows = \<lparr>count_rows = (\<lambda>q. int (length rows)), all_rows = (\<lambda>q. window q rows)\<rparr>"

section \<open>Properties of \<^verbatim>\<open>get_filter_arg\<close>\<close>






section \<open>Properties of \<^verbatim>\<open>get_page_args\<close>\<close>

text \<open>
  Claim C3. The claim has \<^verbatim>\<open>get_page_args\<close> default a missing \<^verbatim>\<open>page\<close> to 1 and a
  missing \<^verbatim>\<open>size\<close> to 10. The function pops both keys with no default, so a
  missing key raises \<^verbatim>\<open>KeyError\<close> before \<^verbatim>\<open>or\<close> is reached: on the empty dictionary
  it raises for \<^verbatim>\<open>page\<close>, and on a dictionary with \<^verbatim>\<open>page\<close> alone it raises for
  \<^verbatim>\<open>size\<close>, after \<^verbatim>\<open>page\<close> has been removed.
\<close>

theorem get_page_args_missing_keys:
  "get_page_args Map.empty = (Inl (KeyError ''page''), Map.empty)
   \<and> get_page_args [''page'' \<mapsto> PInt 2] = (Inl (KeyError ''size''), Map.empty)"
  by (simp add: get_page_args_def dict_pop_def)

lemma get_page_args_present:
  "args ''page'' = Some p \<Longrightarrow> args ''size'' = Some s \<Longrightarrow>
   get_page_args args =
     (Inr [''page'' \<mapsto> py_or p (PInt 1), ''size'' \<mapsto> py_or s (PInt 10)],
      args(''page'' := None, ''size'' := None))"
  by (simp add: get_page_args_def dict_pop_def)

lemma get_page_args_falsy:
  "get_page_args [''page'' \<mapsto> PInt 0, ''size'' \<mapsto> PNone]
     = (Inr [''page'' \<mapsto> PInt 1, ''size'' \<mapsto> PInt 10], Map.empty)"
  by (simp add: get_page_args_present py_or_def)

text \<open>
  Claim C9. \<^verbatim>\<open>get_page_args\<close> never touches a key other than \<^verbatim>\<open>page\<close> and
  \<^verbatim>\<open>size\<close>; when both are present it returns them (a falsy one replaced by its
  default) and the dictionary is left without them and otherwise as it was; and whenever
  it returns at all, the dictionary it leaves is the original one less these two keys.
\<close>

theorem get_page_args_frame:
  "(\<forall>k. k \<noteq> ''page'' \<and> k \<noteq> ''size'' \<longrightarrow> snd (get_page_args args) k = args k)
   \<and> (\<forall>p s. args ''page'' = Some p \<and> args ''size'' = Some s \<longrightarrow>
         get_page_args args =
           (Inr [''page'' \<mapsto> py_or p (PInt 1), ''size'' \<mapsto> py_or s (PInt 10)],
            args(''page'' := None, ''size'' := None)))
   \<and> (\<forall>r args'. get_page_args args = (Inr r, args') \<longrightarrow>
         args' = args(''page'' := None, ''size'' := None)
         \<and> ''page'' \<notin> dom args' \<and> ''size'' \<notin> dom args')"
  by (auto simp: get_page_args_def dict_pop_def Let_def split: option.splits)

theorem get_page_args_frame_witness:
  "get_page_args [''page'' \<mapsto> PInt 2, ''size'' \<mapsto> PInt 20, ''q'' \<mapsto> PStr ''x'']
     = (Inr [''page'' \<mapsto> PInt 2, ''size'' \<mapsto> PInt 20], [''q'' \<mapsto> PStr ''x''])"
  using get_page_args_frame [of "[''page'' \<mapsto> PInt 2, ''size'' \<mapsto> PInt 20, ''q'' \<mapsto> PStr ''x'']"]
  by (auto simp: py_or_def fun_eq_iff)

section \<open>Properties of the pagination\<close>



lemma get_paginated_data_ints:
  assumes "as_int (py_or (dict_get page_args ''page'') (PInt 1)) = Inr page"
    and "as_int (py_or (dict_get page_args ''size'') (PInt 10)) = Inr sz"
    and "sz \<noteq> 0"
  shows "get_paginated_data eng q page_args S tr =
     (Inr \<lparr>items = map S (all_rows eng (get_paginated_queryset q page sz)),
           total_count = count_rows eng q,
           total_page = \<lceil>real_of_int (count_rows eng q) / real_of_int sz\<rceil>,
           current_page = page,
           has_next = (page < \<lceil>real_of_int (count_rows eng q) / real_of_int sz\<rceil>),
           has_prev = (page > 1)\<rparr>,
      page_args,
      tr @ [ExecCount q, ExecAll (get_paginated_queryset q page sz)])"
  using assms by (simp add: get_paginated_data_def truediv_def ceil_def Let_def)







text \<open>
  Claim C10. \<^verbatim>\<open>get_paginated_data\<close> leaves its \<^verbatim>\<open>page_args\<close> dictionary as it
  found it, whatever it holds and whether the call returns or raises; a missing or falsy
  \<^verbatim>\<open>page\<close> gives the result of page 1 and a missing or falsy \<^verbatim>\<open>size\<close> the
  result of size 10.
\<close>

theorem get_paginated_data_keeps_page_args:
  "fst (snd (get_paginated_data eng q page_args S tr)) = page_args
   \<and> (\<not> truthy (dict_get page_args ''page'') \<longrightarrow>
        fst (get_paginated_data eng q page_args S tr)
          = fst (get_paginated_data eng q (page_args(''page'' \<mapsto> PInt 1)) S tr))
   \<and> (\<not> truthy (dict_get page_args ''size'') \<longrightarrow>
        fst (get_paginated_data eng q page_args S tr)
          = fst (get_paginated_data eng q (page_args(''size'' \<mapsto> PInt 10)) S tr))"
  by (auto simp: get_paginated_data_def Let_def py_or_def dict_get_def split: sum.splits)

theorem get_paginated_data_keeps_page_args_witness:
  "get_paginated_data (table_engine [0..<25]) (model_query ''User'') [''size'' \<mapsto> PInt 0] id []
   = (Inr \<lparr>items = [0, 1, 2, 3, 4, 5, 6, 7, 8, 9], total_count = 25, total_page = 3,
            current_page = 1, has_next = True, has_prev = False\<rparr>,
      [''size'' \<mapsto> PInt 0],
      [ExecCount (model_query ''User''),
       ExecAll (offset_q (limit_q (model_query ''User'') 10) 0)])"
  using get_paginated_data_keeps_page_args [of "table_engine [0..<25]" "model_query ''User''"
      "[''size'' \<mapsto> PInt 0]" id "[]"]
  by (simp add: get_paginated_data_def table_engine_def dict_get_def py_or_def as_int_def
      get_paginated_queryset_def truediv_def ceil_def window_def limit_q_def offset_q_def
      model_query_def Let_def upt_rec)

text \<open>
  Claim C8. For a page and a size of at least 1, \<^verbatim>\<open>get_paginated_queryset\<close> returns
  the query it was given with the limit set to the size and the offset to
  \<open>(page - 1) * size\<close>, which is not negative; on a table this window is the rows after
  the first \<open>(page - 1) * size\<close>, at most \<open>size\<close> of them. The function only
  builds the query: it takes no engine and extends no trace, and a whole call of
  \<^verbatim>\<open>get_paginated_data\<close> executes exactly the count of the query it was given and
  then the rows of the window.
\<close>

theorem get_paginated_queryset_window:
  assumes "1 \<le> page" and "1 \<le> sz"
  shows "get_paginated_queryset q page sz = offset_q (limit_q q sz) ((page - 1) * sz)
    \<and> get_paginated_queryset q page sz
        = q\<lparr>limit_clause := Some sz, offset_clause := Some ((page - 1) * sz)\<rparr>
    \<and> 0 \<le> (page - 1) * sz
    \<and> window (get_paginated_queryset q page sz) rows
        = take (nat sz) (drop (nat ((page - 1) * sz)) rows)
    \<and> snd (snd (get_paginated_data eng q [''page'' \<mapsto> PInt page, ''size'' \<mapsto> PInt sz] S tr))
        = tr @ [ExecCount q, ExecAll (get_paginated_queryset q page sz)]"
proof -
  have p: "as_int (py_or (dict_get [''page'' \<mapsto> PInt page, ''size'' \<mapsto> PInt sz] ''page'') (PInt 1)) = Inr page"
    using assms(1) by (simp add: dict_get_def py_or_def as_int_def)
  have s: "as_int (py_or (dict_get [''page'' \<mapsto> PInt page, ''size'' \<mapsto> PInt sz] ''size'') (PInt 10)) = Inr sz"
    using assms(2) by (simp add: dict_get_def py_or_def as_int_def)
  have nz: "sz \<noteq> 0" using assms(2) by simp
  have "0 \<le> (page - 1) * sz" using assms by simp
  then show ?thesis
    using get_paginated_data_ints [OF p s nz, of eng q S tr]
    by (simp add: get_paginated_queryset_def limit_q_def offset_q_def window_def)
qed

theorem get_paginated_queryset_window_witness:
  "get_paginated_queryset (model_query ''User'') 3 10
     = \<lparr>entity = ''User'', joins = [], criteria = [], distinct_on = [],
        limit_clause = Some 10, offset_clause = Some 20\<rparr>
   \<and> window (get_paginated_queryset (model_query ''User'') 3 10) [0..<25] = [20, 21, 22, 23, 24]"
  using get_paginated_queryset_window [of 3 10 "model_query ''User''" "[0..<25]"
      "table_engine [0..<25]" id "[]"]
  by (simp add: model_query_def get_paginated_queryset_def window_def limit_q_def
      offset_q_def upt_rec)

section \<open>Properties of \<^verbatim>\<open>get_filtered_query\<close>\<close>

lemma or_loop_absent:
  "\<not> truthy (dict_get args key) \<Longrightarrow> or_loop args key cs acc = Inr acc"
  by (induction cs arbitrary: acc) simp_all

lemma config_loop_absent_single:
  assumes "\<forall>(key, value) \<in> set field_config. \<not> truthy (dict_get args key)"
    and "\<forall>(key, value) \<in> set field_config. \<exists>c. value = Single c"
  shows "config_loop args field_config acc = Inr acc"
  using assms
proof (induction field_config arbitrary: acc)
  case Nil
  then show ?case by simp
next
  case (Cons entry rest)
  obtain key val where e: "entry = (key, val)" by (cases entry)
  with Cons.prems obtain c where "val = Single c" by auto
  with Cons e show ?case by simp
qed

lemma config_loop_absent:
  assumes "\<forall>(key, value) \<in> set field_config. \<not> truthy (dict_get args key)"
  shows "config_loop args field_config acc = Inr (acc @ empty_groups field_config)"
  using assms
proof (induction args field_config acc rule: config_loop.induct)
  case (1 args filter_arguments)
  then show ?case by simp
next
  case (2 args key c rest filter_arguments)
  then show ?case by simp
next
  case (3 args key cs rest filter_arguments)
  then show ?case by (simp add: or_loop_absent)
qed

lemma get_filtered_query_absent_single:
  assumes "\<forall>(key, value) \<in> set field_config. \<not> truthy (dict_get args key)"
    and "\<forall>(key, value) \<in> set field_config. \<exists>c. value = Single c"
  shows "get_filtered_query model args field_config join_models ignore_deleted
           = get_filtered_query model args [] join_models ignore_deleted"
  using config_loop_absent_single [OF assms, of "[]"]
  by (simp add: get_filtered_query_def)

text \<open>
  Claim C1. The claim has a list-valued key with no argument value add no entry to the
  filter arguments. The dictionary branch skips such a key with \<^verbatim>\<open>continue\<close>; in the
  list branch \<^verbatim>\<open>continue\<close> only skips the alternative, and
  \<^verbatim>\<open>filter_arguments.append(or_(*or_filter_arguments))\<close> runs all the same. With no
  arguments at all and one list-valued key, the query is filtered by one \<^verbatim>\<open>or_\<close> of
  no expression, where the query of the empty configuration has no criterion.
\<close>

theorem get_filtered_query_empty_or_group:
  "get_filtered_query ''User'' Map.empty
       [(''name'', Alternatives [\<lparr>field = Attr ''User'' ''first_name'', look_up = Some ''ilike'', wrapper = None\<rparr>,
                               \<lparr>field = Attr ''User'' ''last_name'', look_up = Some ''ilike'', wrapper = None\<rparr>])]
       [] False
     = Inr \<lparr>entity = ''User'', joins = [], criteria = [Or []],
            distinct_on = [Attr ''User'' ''id''], limit_clause = None, offset_clause = None\<rparr>
   \<and> get_filtered_query ''User'' Map.empty [] [] False
     = Inr \<lparr>entity = ''User'', joins = [], criteria = [],
            distinct_on = [Attr ''User'' ''id''], limit_clause = None, offset_clause = None\<rparr>"
  by (simp add: get_filtered_query_def dict_get_def model_query_def filter_q_def distinct_q_def)







end
